theory Spec2Isabelle
  imports Main
begin

section \<open>Python values and exceptions\<close>

text \<open>
  The chat board of \<^verbatim>\<open>chat_board.py\<close> keeps in its objects whatever
  \<^verbatim>\<open>json.load\<close> returned: Python checks no type annotation. The fields of the
  model therefore hold Python values: \<^verbatim>\<open>None\<close>, booleans, integers, strings, lists
  and dictionaries (a dictionary as the list of its items, in insertion order, its keys
  distinct). Floating-point numbers are left out of the model.
\<close>

datatype pyval =
    PyNone
  | PyBool bool
  | PyInt int
  | PyStr string
  | PyList "pyval list"
  | PyDict "(string \<times> pyval) list"

datatype exn = JSONDecodeError | KeyError string | TypeError | AttributeError

text \<open>Truth value of a Python object, as \<^verbatim>\<open>or\<close> and \<^verbatim>\<open>if\<close> test it.\<close>

fun truthy :: "pyval \<Rightarrow> bool" where
  "truthy PyNone = False"
| "truthy (PyBool b) = b"
| "truthy (PyInt n) = (n \<noteq> 0)"
| "truthy (PyStr s) = (s \<noteq> [])"
| "truthy (PyList xs) = (xs \<noteq> [])"
| "truthy (PyDict kvs) = (kvs \<noteq> [])"

text \<open>
  \<^verbatim>\<open>data[key]\<close> with a string key: a dictionary looks the key up and raises
  \<^verbatim>\<open>KeyError\<close> when it is missing; every other value raises \<^verbatim>\<open>TypeError\<close>
  (a list or a string wants integer indices, the rest is not subscriptable).
\<close>

fun subscript :: "pyval \<Rightarrow> string \<Rightarrow> exn + pyval" where
  "subscript (PyDict kvs) k =
     (case map_of kvs k of None \<Rightarrow> Inl (KeyError k) | Some v \<Rightarrow> Inr v)"
| "subscript _ k = Inl TypeError"

text \<open>
  \<^verbatim>\<open>data.get(key, default)\<close>: only a dictionary has the method; on any other
  value the attribute lookup raises \<^verbatim>\<open>AttributeError\<close>.
\<close>

fun dict_get :: "pyval \<Rightarrow> string \<Rightarrow> pyval \<Rightarrow> exn + pyval" where
  "dict_get (PyDict kvs) k dflt =
     Inr (case map_of kvs k of None \<Rightarrow> dflt | Some v \<Rightarrow> v)"
| "dict_get _ k dflt = Inl AttributeError"

text \<open>
  The elements a \<^verbatim>\<open>for\<close> clause draws from a value: those of a list, the keys of
  a dictionary, the characters of a string; anything else is not iterable.
\<close>

fun iterate :: "pyval \<Rightarrow> exn + pyval list" where
  "iterate (PyList xs) = Inr xs"
| "iterate (PyDict kvs) = Inr (map (\<lambda>kv. PyStr (fst kv)) kvs)"
| "iterate (PyStr s) = Inr (map (\<lambda>c. PyStr [c]) s)"
| "iterate _ = Inl TypeError"

text \<open>
  A list comprehension \<^verbatim>\<open>[f(x) for x in xs]\<close> whose body may raise: the first
  exception, in list order, ends it.
\<close>

fun comprehension :: "('a \<Rightarrow> exn + 'b) \<Rightarrow> 'a list \<Rightarrow> exn + 'b list" where
  "comprehension f [] = Inr []"
| "comprehension f (x # xs) =
     (case f x of
        Inl e \<Rightarrow> Inl e
      | Inr y \<Rightarrow> (case comprehension f xs of Inl e \<Rightarrow> Inl e | Inr ys \<Rightarrow> Inr (y # ys)))"

text \<open>\<^verbatim>\<open>a == b\<close> for a stored value \<open>a\<close> and an integer \<open>b\<close>: \<^verbatim>\<open>True == 1\<close> holds.\<close>

fun eq_int :: "pyval \<Rightarrow> int \<Rightarrow> bool" where
  "eq_int (PyInt n) i = (n = i)"
| "eq_int (PyBool b) i = ((if b then 1 else 0) = i)"
| "eq_int _ i = False"

text \<open>\<^verbatim>\<open>x += 1\<close>: defined on integers and booleans, \<^verbatim>\<open>TypeError\<close> otherwise.\<close>

fun add_one :: "pyval \<Rightarrow> exn + pyval" where
  "add_one (PyInt n) = Inr (PyInt (n + 1))"
| "add_one (PyBool b) = Inr (PyInt ((if b then 1 else 0) + 1))"
| "add_one _ = Inl TypeError"

section \<open>The clock\<close>

text \<open>
  \<^verbatim>\<open>datetime.datetime.now()\<close> is a parameter of every operation that reads the
  clock; one reading stands for all the readings of one call. A \<^verbatim>\<open>datetime\<close>
  has a year from 1 to 9999, a month from 1 to 12, a day up to 31, an hour up to 23,
  minutes and seconds up to 59. \<^verbatim>\<open>strftime("%Y-%m-%d %H:%M:%S")\<close> prints the
  year in decimal as the C library does, without padding (four digits from the year
  1000 on), and each other field in two digits.
\<close>

record datetime =
  year :: nat
  month :: nat
  day :: nat
  hour :: nat
  minute :: nat
  second :: nat

definition digit :: "nat \<Rightarrow> char" where
  "digit n = ''0123456789'' ! (n mod 10)"

definition pad2 :: "nat \<Rightarrow> string" where
  "pad2 n = [digit (n div 10), digit n]"

function digits :: "nat \<Rightarrow> string" where
  "digits n = (if n < 10 then [digit n] else digits (n div 10) @ [digit n])"
  by pat_completeness auto
termination
  by (relation "measure (\<lambda>n. n)") auto

declare digits.simps [simp del]

definition strftime :: "datetime \<Rightarrow> string" where
  "strftime d =
     digits (year d) @ ''-'' @ pad2 (month d) @ ''-'' @ pad2 (day d) @ '' '' @
     pad2 (hour d) @ '':'' @ pad2 (minute d) @ '':'' @ pad2 (second d)"

section \<open>Message\<close>

record Message =
  author :: pyval
  content :: pyval
  timestamp :: pyval

text \<open>\<^verbatim>\<open>Message.__init__\<close>: \<^verbatim>\<open>self.timestamp = timestamp or now().strftime(...)\<close>.\<close>

definition Message_init :: "pyval \<Rightarrow> pyval \<Rightarrow> pyval \<Rightarrow> datetime \<Rightarrow> Message" where
  "Message_init a c t now =
     \<lparr>author = a, content = c,
      timestamp = (if truthy t then t else PyStr (strftime now))\<rparr>"

definition Message_to_dict :: "Message \<Rightarrow> pyval" where
  "Message_to_dict m =
     PyDict [(''author'', author m), (''content'', content m), (''timestamp'', timestamp m)]"

definition Message_from_dict :: "datetime \<Rightarrow> pyval \<Rightarrow> exn + Message" where
  "Message_from_dict now data =
     (case subscript data ''author'' of
        Inl e \<Rightarrow> Inl e
      | Inr a \<Rightarrow>
          (case subscript data ''content'' of
             Inl e \<Rightarrow> Inl e
           | Inr c \<Rightarrow>
               (case subscript data ''timestamp'' of
                  Inl e \<Rightarrow> Inl e
                | Inr t \<Rightarrow> Inr (Message_init a c t now))))"

section \<open>Conversation\<close>

record Conversation =
  title :: pyval
  conversation_id :: pyval
  messages :: "Message list"
  created_at :: pyval

definition Conversation_init :: "pyval \<Rightarrow> pyval \<Rightarrow> datetime \<Rightarrow> Conversation" where
  "Conversation_init t cid now =
     \<lparr>title = t, conversation_id = cid, messages = [], created_at = PyStr (strftime now)\<rparr>"

definition add_message :: "Message \<Rightarrow> Conversation \<Rightarrow> Conversation" where
  "add_message m c = c\<lparr>messages := messages c @ [m]\<rparr>"

definition get_message_count :: "Conversation \<Rightarrow> nat" where
  "get_message_count c = length (messages c)"

definition Conversation_to_dict :: "Conversation \<Rightarrow> pyval" where
  "Conversation_to_dict c =
     PyDict [(''title'', title c), (''conversation_id'', conversation_id c),
             (''created_at'', created_at c),
             (''messages'', PyList (map Message_to_dict (messages c)))]"

text \<open>
  \<^verbatim>\<open>Conversation.from_dict\<close>: the four keys are read in the order title,
  conversation_id, created_at, messages; the constructor's own \<open>created_at\<close> is
  overwritten by the stored one.
\<close>

definition Conversation_from_dict :: "datetime \<Rightarrow> pyval \<Rightarrow> exn + Conversation" where
  "Conversation_from_dict now data =
     (case subscript data ''title'' of
        Inl e \<Rightarrow> Inl e
      | Inr t \<Rightarrow>
          (case subscript data ''conversation_id'' of
             Inl e \<Rightarrow> Inl e
           | Inr cid \<Rightarrow>
               (case subscript data ''created_at'' of
                  Inl e \<Rightarrow> Inl e
                | Inr ca \<Rightarrow>
                    (case subscript data ''messages'' of
                       Inl e \<Rightarrow> Inl e
                     | Inr ms \<Rightarrow>
                         (case iterate ms of
                            Inl e \<Rightarrow> Inl e
                          | Inr items \<Rightarrow>
                              (case comprehension (Message_from_dict now) items of
                                 Inl e \<Rightarrow> Inl e
                               | Inr msgs \<Rightarrow>
                                   Inr ((Conversation_init t cid now)
                                          \<lparr>created_at := ca, messages := msgs\<rparr>)))))))"

section \<open>ChatBoard and its backing file\<close>

text \<open>
  A file either holds text that \<^verbatim>\<open>json.load\<close> rejects with
  \<^verbatim>\<open>JSONDecodeError\<close>, or text that it parses to a value; \<^verbatim>\<open>json.dump\<close>
  writes text that parses back to the value dumped. The environment of the board is the
  file system (a map from paths to file contents), the number of completed
  \<^verbatim>\<open>save_data\<close> writes, and the exceptions reported on standard output by the
  line \<^verbatim>\<open>Warning: Could not load data file: ...\<close>. Failing file operations
  (permissions, a full disk) are outside the model.
\<close>

datatype file_content = NotJSON | JSON pyval

record env =
  disk :: "string \<Rightarrow> file_content option"
  saves :: nat
  warnings :: "exn list"

record ChatBoard =
  storage_file :: string
  conversations :: "Conversation list"
  current_user :: "string option"
  next_conversation_id :: pyval

definition state_to_dict :: "ChatBoard \<Rightarrow> pyval" where
  "state_to_dict b =
     PyDict [(''conversations'', PyList (map Conversation_to_dict (conversations b))),
             (''next_conversation_id'', next_conversation_id b)]"

definition save_data :: "ChatBoard \<Rightarrow> env \<Rightarrow> env" where
  "save_data b e =
     e\<lparr>disk := (disk e)(storage_file b \<mapsto> JSON (state_to_dict b)),
       saves := Suc (saves e)\<rparr>"

text \<open>The body of the \<^verbatim>\<open>try\<close> block of \<^verbatim>\<open>load_data\<close>, after \<^verbatim>\<open>json.load\<close>.\<close>

definition load_body :: "datetime \<Rightarrow> pyval \<Rightarrow> ChatBoard \<Rightarrow> exn + ChatBoard" where
  "load_body now data b =
     (case dict_get data ''conversations'' (PyList []) of
        Inl e \<Rightarrow> Inl e
      | Inr cs \<Rightarrow>
          (case iterate cs of
             Inl e \<Rightarrow> Inl e
           | Inr items \<Rightarrow>
               (case comprehension (Conversation_from_dict now) items of
                  Inl e \<Rightarrow> Inl e
                | Inr convs \<Rightarrow>
                    (case dict_get data ''next_conversation_id'' (PyInt 1) of
                       Inl e \<Rightarrow> Inl e
                     | Inr n \<Rightarrow>
                         Inr (b\<lparr>conversations := convs, next_conversation_id := n\<rparr>)))))"

text \<open>\<^verbatim>\<open>except (json.JSONDecodeError, KeyError)\<close>.\<close>

fun caught :: "exn \<Rightarrow> bool" where
  "caught JSONDecodeError = True"
| "caught (KeyError k) = True"
| "caught TypeError = False"
| "caught AttributeError = False"

definition handler :: "exn \<Rightarrow> ChatBoard \<Rightarrow> env \<Rightarrow> exn + ChatBoard \<times> env" where
  "handler x b e =
     (if caught x
      then Inr (b\<lparr>conversations := []\<rparr>, e\<lparr>warnings := warnings e @ [x]\<rparr>)
      else Inl x)"

definition load_data :: "datetime \<Rightarrow> ChatBoard \<Rightarrow> env \<Rightarrow> exn + ChatBoard \<times> env" where
  "load_data now b e =
     (case disk e (storage_file b) of
        None \<Rightarrow> Inr (b, e)
      | Some NotJSON \<Rightarrow> handler JSONDecodeError b e
      | Some (JSON data) \<Rightarrow>
          (case load_body now data b of
             Inl x \<Rightarrow> handler x b e
           | Inr b' \<Rightarrow> Inr (b', e)))"

definition ChatBoard_init :: "string \<Rightarrow> datetime \<Rightarrow> env \<Rightarrow> exn + ChatBoard \<times> env" where
  "ChatBoard_init f now e =
     load_data now
       \<lparr>storage_file = f, conversations = [], current_user = None,
        next_conversation_id = PyInt 1\<rparr> e"

definition set_username :: "string \<Rightarrow> ChatBoard \<Rightarrow> ChatBoard" where
  "set_username username b = b\<lparr>current_user := Some username\<rparr>"

definition create_conversation ::
  "string \<Rightarrow> datetime \<Rightarrow> ChatBoard \<Rightarrow> env \<Rightarrow> exn + Conversation \<times> ChatBoard \<times> env" where
  "create_conversation t now b e =
     (let conversation = Conversation_init (PyStr t) (next_conversation_id b) now
      in case add_one (next_conversation_id b) of
           Inl x \<Rightarrow> Inl x
         | Inr n \<Rightarrow>
             (let b' = b\<lparr>next_conversation_id := n,
                         conversations := conversations b @ [conversation]\<rparr>
              in Inr (conversation, b', save_data b' e)))"

text \<open>The scan of \<^verbatim>\<open>get_conversation\<close>: the first conversation whose id equals the argument.\<close>

fun find_conversation :: "Conversation list \<Rightarrow> int \<Rightarrow> Conversation option" where
  "find_conversation [] i = None"
| "find_conversation (c # cs) i =
     (if eq_int (conversation_id c) i then Some c else find_conversation cs i)"

definition get_conversation :: "ChatBoard \<Rightarrow> int \<Rightarrow> Conversation option" where
  "get_conversation b i = find_conversation (conversations b) i"

definition list_conversations :: "ChatBoard \<Rightarrow> Conversation list" where
  "list_conversations b = conversations b"

text \<open>
  The loop of \<^verbatim>\<open>delete_conversation\<close>: \<^verbatim>\<open>pop(i)\<close> at the first match, after
  which the method returns; \<open>None\<close> when the loop ends without a match.
\<close>

fun pop_first :: "Conversation list \<Rightarrow> int \<Rightarrow> Conversation list option" where
  "pop_first [] i = None"
| "pop_first (c # cs) i =
     (if eq_int (conversation_id c) i then Some cs
      else (case pop_first cs i of None \<Rightarrow> None | Some cs' \<Rightarrow> Some (c # cs')))"

definition delete_conversation :: "int \<Rightarrow> ChatBoard \<Rightarrow> env \<Rightarrow> bool \<times> ChatBoard \<times> env" where
  "delete_conversation i b e =
     (case pop_first (conversations b) i of
        None \<Rightarrow> (False, b, e)
      | Some cs \<Rightarrow> (let b' = b\<lparr>conversations := cs\<rparr> in (True, b', save_data b' e)))"

text \<open>
  \<^verbatim>\<open>conversation.add_message(message)\<close> acts on the object that
  \<^verbatim>\<open>get_conversation\<close> returned, which is the first matching element of the list.
\<close>

fun add_to_first :: "Message \<Rightarrow> Conversation list \<Rightarrow> int \<Rightarrow> Conversation list" where
  "add_to_first m [] i = []"
| "add_to_first m (c # cs) i =
     (if eq_int (conversation_id c) i then add_message m c # cs
      else c # add_to_first m cs i)"

text \<open>
  \<^verbatim>\<open>if conversation and self.current_user\<close>: a Conversation object is always true,
  \<^verbatim>\<open>None\<close> and the empty string are false.
\<close>

definition post_message ::
  "int \<Rightarrow> string \<Rightarrow> datetime \<Rightarrow> ChatBoard \<Rightarrow> env \<Rightarrow> bool \<times> ChatBoard \<times> env" where
  "post_message i c now b e =
     (case get_conversation b i of
        None \<Rightarrow> (False, b, e)
      | Some conversation \<Rightarrow>
          (case current_user b of
             None \<Rightarrow> (False, b, e)
           | Some u \<Rightarrow>
               if u = [] then (False, b, e)
               else
                 (let message = Message_init (PyStr u) (PyStr c) PyNone now;
                      b' = b\<lparr>conversations := add_to_first message (conversations b) i\<rparr>
                  in (True, b', save_data b' e))))"

section \<open>Sequences of calls\<close>

datatype call =
    SetUsername string
  | CreateConversation string datetime
  | DeleteConversation int
  | PostMessage int string datetime

datatype outcome = Done | Created Conversation | Answer bool

fun perform :: "call \<Rightarrow> ChatBoard \<Rightarrow> env \<Rightarrow> exn + outcome \<times> ChatBoard \<times> env" where
  "perform (SetUsername u) b e = Inr (Done, set_username u b, e)"
| "perform (CreateConversation t now) b e =
     (case create_conversation t now b e of
        Inl x \<Rightarrow> Inl x
      | Inr (c, b', e') \<Rightarrow> Inr (Created c, b', e'))"
| "perform (DeleteConversation i) b e =
     (case delete_conversation i b e of (r, b', e') \<Rightarrow> Inr (Answer r, b', e'))"
| "perform (PostMessage i c now) b e =
     (case post_message i c now b e of (r, b', e') \<Rightarrow> Inr (Answer r, b', e'))"


text \<open>
  The boards a program can hold: one that the constructor returned, changed by any
  sequence of the public operations, whatever happens to the files in between.
\<close>

inductive reachable :: "ChatBoard \<Rightarrow> bool" where
  init: "ChatBoard_init f now e = Inr (b, e') \<Longrightarrow> reachable b"
| step: "reachable b \<Longrightarrow> perform k b e = Inr (r, b', e') \<Longrightarrow> reachable b'"

section \<open>A sample session\<close>

text \<open>
  The inputs of the worked examples: a clock reading, a file system without the storage
  file, the board that the constructor builds there, and that board after
  \<^verbatim>\<open>create_conversation("Lunch plans")\<close>.
\<close>

definition noon :: datetime where
  "noon = \<lparr>year = 2024, month = 5, day = 17, hour = 12, minute = 0, second = 0\<rparr>"

definition no_files :: env where
  "no_files = \<lparr>disk = Map.empty, saves = 0, warnings = []\<rparr>"

definition new_board :: ChatBoard where
  "new_board =
     \<lparr>storage_file = ''chat_board_data.json'', conversations = [], current_user = None,
      next_conversation_id = PyInt 1\<rparr>"

definition lunch :: Conversation where
  "lunch =
     \<lparr>title = PyStr ''Lunch plans'', conversation_id = PyInt 1, messages = [],
      created_at = PyStr ''2024-05-17 12:00:00''\<rparr>"

definition lunch_board :: ChatBoard where
  "lunch_board = new_board\<lparr>conversations := [lunch], next_conversation_id := PyInt 2\<rparr>"

definition dinner :: Conversation where
  "dinner =
     \<lparr>title = PyStr ''Dinner'', conversation_id = PyInt 2, messages = [],
      created_at = PyStr ''2024-05-17 12:00:00''\<rparr>"

definition two_board :: ChatBoard where
  "two_board = new_board\<lparr>conversations := [lunch, dinner], next_conversation_id := PyInt 3\<rparr>"


definition hello :: Message where
  "hello =
     \<lparr>author = PyStr ''alice'', content = PyStr ''Where should we eat?'',
      timestamp = PyStr ''2024-05-17 12:00:00''\<rparr>"

definition alice_board :: ChatBoard where
  "alice_board =
     lunch_board\<lparr>current_user := Some ''alice'',
                 conversations := [lunch\<lparr>messages := [hello]\<rparr>]\<rparr>"

text \<open>The new board with the counter that a file gave as the string \<^verbatim>\<open>"abc"\<close>.\<close>

definition abc_board :: ChatBoard where
  "abc_board = new_board\<lparr>next_conversation_id := PyStr ''abc''\<rparr>"

text \<open>A file system whose storage file parses to the given value.\<close>

definition file_env :: "pyval \<Rightarrow> env" where
  "file_env v = \<lparr>disk = [''chat_board_data.json'' \<mapsto> JSON v], saves = 0, warnings = []\<rparr>"

section \<open>Basic facts\<close>

lemma strftime_nonempty: "strftime d \<noteq> []"
  by (simp add: strftime_def)

lemma strftime_noon: "strftime noon = ''2024-05-17 12:00:00''"
  by (simp add: strftime_def noon_def digits.simps pad2_def digit_def)

lemma Message_init_truthy: "truthy (timestamp (Message_init a c t now))"
  by (simp add: Message_init_def strftime_nonempty)

lemma find_conversation_Some_iff:
  "find_conversation cs i \<noteq> None \<longleftrightarrow> (\<exists>c\<in>set cs. eq_int (conversation_id c) i)"
  by (induction cs) auto

lemma find_conversation_None_iff:
  "find_conversation cs i = None \<longleftrightarrow> (\<forall>c\<in>set cs. \<not> eq_int (conversation_id c) i)"
  by (induction cs) auto

section \<open>Posting\<close>

text \<open>
  Claim C9. \<^verbatim>\<open>set_username("")\<close> stores the empty string in \<open>current_user\<close>, and
  on the board it leaves every \<open>post_message\<close> call returns false and changes neither
  the board nor the files, whatever the conversation id, also the id of an existing
  conversation; the board being unchanged, the same holds for the calls after it.
\<close>

theorem empty_username_blocks_posting:
  "current_user (set_username [] b) = Some [] \<and>
   post_message i c now (set_username [] b) e = (False, set_username [] b, e)"
  by (simp add: set_username_def post_message_def split: option.splits)

text \<open>
  Claim C2, amended. \<open>post_message\<close> returns true if and only if a conversation with
  that id exists and \<open>current_user\<close> is set to a non-empty string; whenever it returns
  false, the board (so every message list) and the files are unchanged.
\<close>

theorem post_message_true_iff:
  "(fst (post_message i c now b e) \<longleftrightarrow>
      (\<exists>conv\<in>set (conversations b). eq_int (conversation_id conv) i) \<and>
      (\<exists>u. current_user b = Some u \<and> u \<noteq> [])) \<and>
   (\<not> fst (post_message i c now b e) \<longrightarrow> post_message i c now b e = (False, b, e))"
proof (cases "find_conversation (conversations b) i")
  case None
  then show ?thesis
    using find_conversation_None_iff [of "conversations b" i]
    by (simp add: post_message_def get_conversation_def)
next
  case (Some conv)
  then have "\<exists>c\<in>set (conversations b). eq_int (conversation_id c) i"
    using find_conversation_Some_iff [of "conversations b" i] by simp
  with Some show ?thesis
    by (auto simp: post_message_def get_conversation_def Let_def split: option.splits)
qed

theorem post_message_true_iff_witness:
  "\<not> fst (post_message 1 ''hi'' noon lunch_board no_files) \<and>
   post_message 1 ''hi'' noon lunch_board no_files = (False, lunch_board, no_files) \<and>
   fst (post_message 1 ''hi'' noon (set_username ''alice'' lunch_board) no_files)"
  using post_message_true_iff [of 1 "''hi''" noon lunch_board no_files]
        post_message_true_iff [of 1 "''hi''" noon "set_username ''alice'' lunch_board" no_files]
  by (simp add: lunch_board_def new_board_def lunch_def set_username_def)

text \<open>
  Claim C2 as stated fails where the username is set to the empty string: the
  conversation exists, \<open>current_user\<close> is not \<^verbatim>\<open>None\<close>, and the call returns false.
\<close>

theorem post_message_empty_name_counterexample:
  "get_conversation (set_username [] lunch_board) 1 \<noteq> None \<and>
   current_user (set_username [] lunch_board) \<noteq> None \<and>
   fst (post_message 1 ''hi'' noon (set_username [] lunch_board) no_files) = False"
  by (simp add: lunch_board_def new_board_def lunch_def set_username_def
      get_conversation_def post_message_def)

section \<open>Creating and deleting conversations\<close>

text \<open>
  Claim C6, amended. On a board whose counter is an integer \<open>n\<close>,
  \<open>create_conversation\<close> raises nothing: it returns a conversation with the given
  title, the id \<open>n\<close>, no messages and the clock reading as \<open>created_at\<close>; the
  board it leaves has the counter \<open>n + 1\<close> and that conversation appended at the
  end of the list, and is saved. On a board whose counter is neither an integer nor a
  boolean (a string, \<^verbatim>\<open>None\<close>, a list or a dictionary that the file gave), it
  raises \<^verbatim>\<open>TypeError\<close>.
\<close>

theorem create_conversation_succeeds:
  "(\<forall>n. next_conversation_id b = PyInt n \<longrightarrow>
      (\<exists>c b'. create_conversation t now b e = Inr (c, b', save_data b' e) \<and>
         c = \<lparr>title = PyStr t, conversation_id = PyInt n, messages = [],
              created_at = PyStr (strftime now)\<rparr> \<and>
         b' = b\<lparr>next_conversation_id := PyInt (n + 1),
                conversations := conversations b @ [c]\<rparr>)) \<and>
   ((\<forall>n. next_conversation_id b \<noteq> PyInt n) \<and> (\<forall>v. next_conversation_id b \<noteq> PyBool v) \<longrightarrow>
      create_conversation t now b e = Inl TypeError)"
proof (intro conjI allI impI)
  fix n
  assume "next_conversation_id b = PyInt n"
  then show "\<exists>c b'. create_conversation t now b e = Inr (c, b', save_data b' e) \<and>
         c = \<lparr>title = PyStr t, conversation_id = PyInt n, messages = [],
              created_at = PyStr (strftime now)\<rparr> \<and>
         b' = b\<lparr>next_conversation_id := PyInt (n + 1),
                conversations := conversations b @ [c]\<rparr>"
    by (simp add: create_conversation_def Conversation_init_def Let_def)
next
  assume "(\<forall>n. next_conversation_id b \<noteq> PyInt n) \<and> (\<forall>v. next_conversation_id b \<noteq> PyBool v)"
  then have "add_one (next_conversation_id b) = Inl TypeError"
    by (cases "next_conversation_id b") auto
  then show "create_conversation t now b e = Inl TypeError"
    by (simp add: create_conversation_def Let_def)
qed

theorem create_conversation_succeeds_witness:
  "next_conversation_id new_board = PyInt 1 \<and>
   create_conversation ''Lunch plans'' noon new_board no_files =
     Inr (lunch, lunch_board, save_data lunch_board no_files) \<and>
   next_conversation_id abc_board = PyStr ''abc'' \<and>
   create_conversation ''Lunch plans'' noon abc_board no_files = Inl TypeError"
  using create_conversation_succeeds [of new_board "''Lunch plans''" noon no_files]
    create_conversation_succeeds [of abc_board "''Lunch plans''" noon no_files]
  by (simp add: new_board_def abc_board_def lunch_board_def lunch_def strftime_noon)

text \<open>
  Claim C6 as stated fails on a board the constructor returns: from a storage file
  whose \<open>next_conversation_id\<close> is the string \<^verbatim>\<open>"abc"\<close> it builds the board
  with that counter, and \<open>create_conversation\<close> on it raises
  \<^verbatim>\<open>TypeError\<close> at \<^verbatim>\<open>self.next_conversation_id += 1\<close>.
\<close>

theorem create_conversation_string_counter_counterexample:
  "ChatBoard_init ''chat_board_data.json'' noon
       (file_env (PyDict [(''next_conversation_id'', PyStr ''abc'')])) =
     Inr (abc_board, file_env (PyDict [(''next_conversation_id'', PyStr ''abc'')])) \<and>
   create_conversation ''Lunch plans'' noon abc_board
       (file_env (PyDict [(''next_conversation_id'', PyStr ''abc'')])) = Inl TypeError"
  by (simp add: ChatBoard_init_def load_data_def load_body_def file_env_def abc_board_def
      new_board_def create_conversation_def Let_def)

subsection \<open>The first match of a scan\<close>

lemma pop_first_None_iff:
  "pop_first cs i = None \<longleftrightarrow> (\<forall>c\<in>set cs. \<not> eq_int (conversation_id c) i)"
  by (induction cs) (auto split: option.splits)

lemma pop_first_split:
  "(\<forall>p\<in>set pre. \<not> eq_int (conversation_id p) i) \<Longrightarrow> eq_int (conversation_id c) i \<Longrightarrow>
   pop_first (pre @ c # post) i = Some (pre @ post)"
  by (induction pre) auto

lemma first_match_split:
  "\<exists>c\<in>set cs. eq_int (conversation_id c) i \<Longrightarrow>
   \<exists>pre c post. cs = pre @ c # post \<and> eq_int (conversation_id c) i \<and>
     (\<forall>p\<in>set pre. \<not> eq_int (conversation_id p) i)"
proof (induction cs)
  case Nil
  then show ?case by simp
next
  case (Cons a cs)
  show ?case
  proof (cases "eq_int (conversation_id a) i")
    case True
    then have "a # cs = [] @ a # cs \<and> eq_int (conversation_id a) i \<and>
      (\<forall>p\<in>set []. \<not> eq_int (conversation_id p) i)" by simp
    then show ?thesis by blast
  next
    case False
    with Cons.prems have "\<exists>c\<in>set cs. eq_int (conversation_id c) i" by simp
    with Cons.IH obtain pre c post where h: "cs = pre @ c # post" "eq_int (conversation_id c) i"
      "\<forall>p\<in>set pre. \<not> eq_int (conversation_id p) i" by blast
    with False have "a # cs = (a # pre) @ c # post \<and> eq_int (conversation_id c) i \<and>
      (\<forall>p\<in>set (a # pre). \<not> eq_int (conversation_id p) i)" by simp
    then show ?thesis by blast
  qed
qed

text \<open>
  Claim C5. When no conversation has the id, \<open>delete_conversation\<close> returns false
  and leaves the board and the files as they were, nothing being saved. When one has,
  it returns true, the list loses exactly the first conversation with that id, every
  other conversation stays in place as it was, and the new board is saved.
\<close>

theorem delete_conversation_removes_first_match:
  "((\<forall>c\<in>set (conversations b). \<not> eq_int (conversation_id c) i) \<longrightarrow>
      delete_conversation i b e = (False, b, e)) \<and>
   ((\<exists>c\<in>set (conversations b). eq_int (conversation_id c) i) \<longrightarrow>
      (\<exists>pre c post.
         conversations b = pre @ c # post \<and> eq_int (conversation_id c) i \<and>
         (\<forall>p\<in>set pre. \<not> eq_int (conversation_id p) i) \<and>
         delete_conversation i b e =
           (True, b\<lparr>conversations := pre @ post\<rparr>,
            save_data (b\<lparr>conversations := pre @ post\<rparr>) e)))"
proof (intro conjI impI)
  assume "\<forall>c\<in>set (conversations b). \<not> eq_int (conversation_id c) i"
  then have "pop_first (conversations b) i = None"
    by (simp add: pop_first_None_iff)
  then show "delete_conversation i b e = (False, b, e)"
    by (simp add: delete_conversation_def)
next
  assume "\<exists>c\<in>set (conversations b). eq_int (conversation_id c) i"
  then obtain pre c post where h: "conversations b = pre @ c # post"
    "eq_int (conversation_id c) i" "\<forall>p\<in>set pre. \<not> eq_int (conversation_id p) i"
    using first_match_split by blast
  then have "pop_first (conversations b) i = Some (pre @ post)"
    by (simp add: pop_first_split)
  then have "delete_conversation i b e =
      (True, b\<lparr>conversations := pre @ post\<rparr>, save_data (b\<lparr>conversations := pre @ post\<rparr>) e)"
    by (simp add: delete_conversation_def Let_def)
  with h show "\<exists>pre c post.
         conversations b = pre @ c # post \<and> eq_int (conversation_id c) i \<and>
         (\<forall>p\<in>set pre. \<not> eq_int (conversation_id p) i) \<and>
         delete_conversation i b e =
           (True, b\<lparr>conversations := pre @ post\<rparr>,
            save_data (b\<lparr>conversations := pre @ post\<rparr>) e)" by blast
qed

theorem delete_conversation_removes_first_match_witness:
  "get_conversation two_board 7 = None \<and>
   delete_conversation 7 two_board no_files = (False, two_board, no_files) \<and>
   get_conversation two_board 2 = Some dinner \<and>
   delete_conversation 2 two_board no_files =
     (True, two_board\<lparr>conversations := [lunch]\<rparr>,
      save_data (two_board\<lparr>conversations := [lunch]\<rparr>) no_files)"
  using delete_conversation_removes_first_match [of two_board 7 no_files]
        delete_conversation_removes_first_match [of two_board 2 no_files]
  by (simp add: two_board_def new_board_def lunch_def dinner_def delete_conversation_def
      get_conversation_def Let_def)

subsection \<open>Identifiers\<close>





section \<open>Persistence\<close>

lemma save_data_disk:
  "disk (save_data b e) (storage_file b) = Some (JSON (state_to_dict b))"
  by (simp add: save_data_def)

lemma save_data_disk_same_file:
  "storage_file b' = storage_file b \<Longrightarrow>
   disk (save_data b' e) (storage_file b) = Some (JSON (state_to_dict b'))"
  by (simp add: save_data_def)

text \<open>
  Claim C4, amended. Every operation that changes the persisted part of the board (the
  conversations or the counter) saves the full state before it returns:
  \<open>create_conversation\<close> always, \<open>delete_conversation\<close> and \<open>post_message\<close>
  when they return true, and these two change nothing and write nothing otherwise.
  \<open>set_username\<close> changes \<open>current_user\<close> only, which is no part of the saved
  state, and writes nothing.
\<close>

theorem persisted_state_changes_are_saved:
  assumes "perform k b e = Inr (r, b', e')"
  shows "(\<forall>u. k = SetUsername u \<longrightarrow> b' = b\<lparr>current_user := Some u\<rparr> \<and> e' = e) \<and>
         (\<forall>t now. k = CreateConversation t now \<longrightarrow> e' = save_data b' e) \<and>
         (\<forall>i. k = DeleteConversation i \<longrightarrow>
            (r = Answer True \<longrightarrow> e' = save_data b' e) \<and>
            (r \<noteq> Answer True \<longrightarrow> b' = b \<and> e' = e)) \<and>
         (\<forall>i c now. k = PostMessage i c now \<longrightarrow>
            (r = Answer True \<longrightarrow> e' = save_data b' e) \<and>
            (r \<noteq> Answer True \<longrightarrow> b' = b \<and> e' = e)) \<and>
         (conversations b' \<noteq> conversations b \<or>
          next_conversation_id b' \<noteq> next_conversation_id b \<longrightarrow>
            e' = save_data b' e \<and>
            disk e' (storage_file b') = Some (JSON (state_to_dict b')))"
proof (cases k)
  case (SetUsername u)
  with assms show ?thesis by (auto simp: set_username_def)
next
  case (CreateConversation t now)
  with assms show ?thesis
    by (auto simp: create_conversation_def Let_def save_data_disk_same_file split: sum.splits)
next
  case (DeleteConversation i)
  with assms show ?thesis
    by (auto simp: delete_conversation_def Let_def save_data_disk_same_file split: option.splits)
next
  case (PostMessage i c now)
  with assms show ?thesis
    by (auto simp: post_message_def Let_def save_data_disk_same_file split: option.splits if_splits)
qed

theorem persisted_state_changes_are_saved_witness:
  "perform (CreateConversation ''Lunch plans'' noon) new_board no_files =
     Inr (Created lunch, lunch_board, save_data lunch_board no_files) \<and>
   conversations lunch_board \<noteq> conversations new_board \<and>
   disk (save_data lunch_board no_files) (storage_file lunch_board) =
     Some (JSON (state_to_dict lunch_board)) \<and>
   perform (DeleteConversation 7) lunch_board no_files = Inr (Answer False, lunch_board, no_files) \<and>
   perform (DeleteConversation 1) lunch_board no_files =
     Inr (Answer True, lunch_board\<lparr>conversations := []\<rparr>,
          save_data (lunch_board\<lparr>conversations := []\<rparr>) no_files) \<and>
   perform (PostMessage 1 ''hi'' noon) lunch_board no_files = Inr (Answer False, lunch_board, no_files) \<and>
   perform (SetUsername ''alice'') lunch_board no_files =
     Inr (Done, lunch_board\<lparr>current_user := Some ''alice''\<rparr>, no_files)"
proof -
  have c: "perform (CreateConversation ''Lunch plans'' noon) new_board no_files =
     Inr (Created lunch, lunch_board, save_data lunch_board no_files)"
    by (simp add: new_board_def lunch_board_def lunch_def create_conversation_def
        Conversation_init_def Let_def strftime_noon)
  have d7: "perform (DeleteConversation 7) lunch_board no_files = Inr (Answer False, lunch_board, no_files)"
    by (simp add: lunch_board_def new_board_def lunch_def delete_conversation_def)
  have d1: "perform (DeleteConversation 1) lunch_board no_files =
     Inr (Answer True, lunch_board\<lparr>conversations := []\<rparr>,
          save_data (lunch_board\<lparr>conversations := []\<rparr>) no_files)"
    by (simp add: lunch_board_def new_board_def lunch_def delete_conversation_def Let_def)
  have p: "perform (PostMessage 1 ''hi'' noon) lunch_board no_files = Inr (Answer False, lunch_board, no_files)"
    by (simp add: lunch_board_def new_board_def lunch_def post_message_def get_conversation_def)
  have s: "perform (SetUsername ''alice'') lunch_board no_files =
     Inr (Done, lunch_board\<lparr>current_user := Some ''alice''\<rparr>, no_files)"
    by (simp add: set_username_def)
  have n: "conversations lunch_board \<noteq> conversations new_board"
    by (simp add: lunch_board_def new_board_def)
  from persisted_state_changes_are_saved [OF c] n
  have "disk (save_data lunch_board no_files) (storage_file lunch_board) =
     Some (JSON (state_to_dict lunch_board))" by blast
  with c d7 d1 p s n
    persisted_state_changes_are_saved [OF d7] persisted_state_changes_are_saved [OF d1]
    persisted_state_changes_are_saved [OF p] persisted_state_changes_are_saved [OF s]
  show ?thesis by blast
qed

text \<open>
  Claim C4 as stated fails for \<open>set_username\<close>: on the new board, with no storage
  file, it changes the board in memory and no file is written.
\<close>

theorem set_username_without_save_counterexample:
  "perform (SetUsername ''alice'') new_board no_files =
     Inr (Done, new_board\<lparr>current_user := Some ''alice''\<rparr>, no_files) \<and>
   new_board\<lparr>current_user := Some ''alice''\<rparr> \<noteq> new_board \<and>
   no_files \<noteq> save_data (new_board\<lparr>current_user := Some ''alice''\<rparr>) no_files \<and>
   disk no_files (storage_file new_board) = None \<and>
   saves no_files = 0"
  by (simp add: set_username_def new_board_def no_files_def save_data_def)

section \<open>Saving and loading\<close>

subsection \<open>Decoding what was encoded\<close>

lemma comprehension_map:
  "(\<And>x. x \<in> set xs \<Longrightarrow> f (g x) = Inr x) \<Longrightarrow> comprehension f (map g xs) = Inr xs"
  by (induction xs) auto

lemma comprehension_all:
  "(\<And>x y. f x = Inr y \<Longrightarrow> P y) \<Longrightarrow> comprehension f xs = Inr ys \<Longrightarrow> \<forall>y\<in>set ys. P y"
  by (induction xs arbitrary: ys) (auto split: sum.splits)

lemma Message_round_trip:
  "truthy (timestamp m) \<Longrightarrow> Message_from_dict now (Message_to_dict m) = Inr m"
  by (simp add: Message_from_dict_def Message_to_dict_def Message_init_def)

lemma Conversation_round_trip:
  assumes "\<forall>m\<in>set (messages c). truthy (timestamp m)"
  shows "Conversation_from_dict now (Conversation_to_dict c) = Inr c"
proof -
  have "comprehension (Message_from_dict now) (map Message_to_dict (messages c)) = Inr (messages c)"
    using assms by (intro comprehension_map) (simp add: Message_round_trip)
  then show ?thesis
    by (simp add: Conversation_from_dict_def Conversation_to_dict_def Conversation_init_def)
qed

lemma load_body_round_trip:
  assumes "\<forall>c\<in>set (conversations b). \<forall>m\<in>set (messages c). truthy (timestamp m)"
  shows "load_body now (state_to_dict b) b0 =
           Inr (b0\<lparr>conversations := conversations b,
                   next_conversation_id := next_conversation_id b\<rparr>)"
proof -
  have "comprehension (Conversation_from_dict now) (map Conversation_to_dict (conversations b)) =
          Inr (conversations b)"
    using assms by (intro comprehension_map) (simp add: Conversation_round_trip)
  then show ?thesis
    by (simp add: load_body_def state_to_dict_def)
qed

lemma Message_from_dict_truthy:
  "Message_from_dict now d = Inr m \<Longrightarrow> truthy (timestamp m)"
  by (auto simp: Message_from_dict_def Message_init_truthy split: sum.splits)

lemma Conversation_from_dict_truthy:
  assumes "Conversation_from_dict now d = Inr c"
  shows "\<forall>m\<in>set (messages c). truthy (timestamp m)"
proof -
  from assms obtain items where "comprehension (Message_from_dict now) items = Inr (messages c)"
    by (auto simp: Conversation_from_dict_def split: sum.splits)
  then show ?thesis
    using comprehension_all [of "Message_from_dict now" "\<lambda>m. truthy (timestamp m)"]
      Message_from_dict_truthy by blast
qed

lemma load_body_truthy:
  assumes "load_body now d b0 = Inr b"
  shows "\<forall>c\<in>set (conversations b). \<forall>m\<in>set (messages c). truthy (timestamp m)"
proof -
  from assms obtain items where "comprehension (Conversation_from_dict now) items = Inr (conversations b)"
    by (auto simp: load_body_def split: sum.splits)
  then show ?thesis
    using comprehension_all [of "Conversation_from_dict now"
        "\<lambda>c. \<forall>m\<in>set (messages c). truthy (timestamp m)"]
      Conversation_from_dict_truthy by blast
qed

lemma load_data_truthy:
  assumes "load_data now b0 e = Inr (b, e')" and "conversations b0 = []"
  shows "\<forall>c\<in>set (conversations b). \<forall>m\<in>set (messages c). truthy (timestamp m)"
proof (cases "disk e (storage_file b0)")
  case None
  with assms show ?thesis by (simp add: load_data_def)
next
  case (Some fc)
  show ?thesis
  proof (cases fc)
    case NotJSON
    with Some assms show ?thesis by (auto simp: load_data_def handler_def)
  next
    case (JSON d)
    show ?thesis
    proof (cases "load_body now d b0")
      case (Inl x)
      with Some JSON assms show ?thesis
        by (auto simp: load_data_def handler_def split: if_splits)
    next
      case (Inr b1)
      with Some JSON assms have "b = b1" by (simp add: load_data_def)
      with Inr load_body_truthy show ?thesis by blast
    qed
  qed
qed

lemma pop_first_subset: "pop_first cs i = Some cs' \<Longrightarrow> set cs' \<subseteq> set cs"
  by (induction cs arbitrary: cs') (auto split: if_splits option.splits)

lemma add_to_first_truthy:
  "truthy (timestamp m) \<Longrightarrow> \<forall>c\<in>set cs. \<forall>x\<in>set (messages c). truthy (timestamp x) \<Longrightarrow>
   \<forall>c\<in>set (add_to_first m cs i). \<forall>x\<in>set (messages c). truthy (timestamp x)"
  by (induction cs) (auto simp: add_message_def)

lemma perform_truthy:
  assumes "perform k b e = Inr (r, b', e')"
    and "\<forall>c\<in>set (conversations b). \<forall>m\<in>set (messages c). truthy (timestamp m)"
  shows "\<forall>c\<in>set (conversations b'). \<forall>m\<in>set (messages c). truthy (timestamp m)"
proof (cases k)
  case (SetUsername u)
  with assms show ?thesis by (auto simp: set_username_def)
next
  case (CreateConversation t now)
  with assms show ?thesis
    by (auto simp: create_conversation_def Conversation_init_def Let_def split: sum.splits)
next
  case (DeleteConversation i)
  with assms show ?thesis
    using pop_first_subset [of "conversations b" i]
    by (auto simp: delete_conversation_def Let_def split: option.splits)
next
  case (PostMessage i c now)
  have "\<forall>c\<in>set (add_to_first (Message_init a x PyNone now) (conversations b) i).
          \<forall>m\<in>set (messages c). truthy (timestamp m)" for a x
    using assms(2) by (intro add_to_first_truthy) (simp_all add: Message_init_truthy)
  with PostMessage assms show ?thesis
    by (auto simp: post_message_def Let_def split: option.splits if_splits)
qed

lemma reachable_truthy:
  "reachable b \<Longrightarrow> \<forall>c\<in>set (conversations b). \<forall>m\<in>set (messages c). truthy (timestamp m)"
proof (induction rule: reachable.induct)
  case (init f now e b e')
  then show ?case
    using load_data_truthy [of now _ e b e'] by (simp add: ChatBoard_init_def)
next
  case (step b k e r b' e')
  then show ?case using perform_truthy by blast
qed

lemma ChatBoard_init_after_save:
  assumes "\<forall>c\<in>set (conversations b). \<forall>m\<in>set (messages c). truthy (timestamp m)"
  shows "ChatBoard_init (storage_file b) now (save_data b e) =
           Inr (b\<lparr>current_user := None\<rparr>, save_data b e)"
  using load_body_round_trip [OF assms]
  by (simp add: ChatBoard_init_def load_data_def save_data_def)

text \<open>
  Claim C3. For every board the program can hold, saving it and constructing a new
  board from the file that was written succeeds and gives the same conversations (ids,
  titles, \<open>created_at\<close>, and the messages with author, content and timestamp, in the
  same order) and the same counter; \<open>from_dict\<close> undoes \<open>to_dict\<close> on each
  conversation.
\<close>

theorem save_then_load_round_trip:
  assumes "reachable b"
  shows "(\<exists>b'. ChatBoard_init (storage_file b) now (save_data b e) = Inr (b', save_data b e) \<and>
            conversations b' = conversations b \<and>
            next_conversation_id b' = next_conversation_id b) \<and>
         comprehension (Conversation_from_dict now)
           (map Conversation_to_dict (conversations b)) = Inr (conversations b)"
proof -
  from assms have t: "\<forall>c\<in>set (conversations b). \<forall>m\<in>set (messages c). truthy (timestamp m)"
    by (rule reachable_truthy)
  have "comprehension (Conversation_from_dict now) (map Conversation_to_dict (conversations b)) =
          Inr (conversations b)"
    using t by (intro comprehension_map) (simp add: Conversation_round_trip)
  with ChatBoard_init_after_save [OF t] show ?thesis by simp
qed

lemma new_board_init: "ChatBoard_init ''chat_board_data.json'' noon no_files = Inr (new_board, no_files)"
  by (simp add: ChatBoard_init_def load_data_def no_files_def new_board_def)

lemma lunch_board_created:
  "perform (CreateConversation ''Lunch plans'' noon) new_board no_files =
     Inr (Created lunch, lunch_board, save_data lunch_board no_files)"
  by (simp add: new_board_def lunch_board_def lunch_def create_conversation_def
      Conversation_init_def Let_def strftime_noon)

lemma alice_board_posted:
  "perform (PostMessage 1 ''Where should we eat?'' noon) (set_username ''alice'' lunch_board) e =
     Inr (Answer True, alice_board, save_data alice_board e)"
  by (simp add: alice_board_def lunch_board_def new_board_def lunch_def hello_def
      set_username_def post_message_def get_conversation_def Message_init_def add_message_def
      Let_def strftime_noon)

lemma alice_board_reachable: "reachable alice_board"
proof -
  have "reachable new_board" using new_board_init by (rule reachable.init)
  then have "reachable lunch_board" using lunch_board_created by (rule reachable.step)
  then have "reachable (set_username ''alice'' lunch_board)"
    by (rule reachable.step [where k = "SetUsername ''alice''" and e = no_files]) simp
  then show ?thesis using alice_board_posted by (rule reachable.step)
qed

theorem save_then_load_round_trip_witness:
  "reachable alice_board \<and>
   ChatBoard_init ''chat_board_data.json'' noon (save_data alice_board no_files) =
     Inr (alice_board\<lparr>current_user := None\<rparr>, save_data alice_board no_files) \<and>
   conversations alice_board = [lunch\<lparr>messages := [hello]\<rparr>] \<and>
   next_conversation_id alice_board = PyInt 2"
  using alice_board_reachable
    save_then_load_round_trip [OF alice_board_reachable, of noon no_files]
    ChatBoard_init_after_save [OF reachable_truthy [OF alice_board_reachable], of noon no_files]
  by (simp add: alice_board_def lunch_board_def new_board_def)

subsection \<open>Files that are not as expected\<close>

text \<open>
  Claim C7 fails on the code. A storage file that holds valid JSON of another shape
  (a list at the top, a conversation that is a number, a \<open>conversations\<close> field that is
  a number) makes the constructor raise \<^verbatim>\<open>AttributeError\<close> or
  \<^verbatim>\<open>TypeError\<close>, which \<open>load_data\<close> does not catch: no board is built and no
  diagnostic is printed.
\<close>

theorem load_data_raises_on_ill_typed_json:
  "ChatBoard_init ''chat_board_data.json'' noon (file_env (PyList [])) = Inl AttributeError \<and>
   ChatBoard_init ''chat_board_data.json'' noon
     (file_env (PyDict [(''conversations'', PyList [PyInt 5])])) = Inl TypeError \<and>
   ChatBoard_init ''chat_board_data.json'' noon
     (file_env (PyDict [(''conversations'', PyInt 5)])) = Inl TypeError"
  by (simp add: ChatBoard_init_def load_data_def load_body_def handler_def file_env_def
      Conversation_from_dict_def)

text \<open>
  What \<open>load_data\<close> does catch: text that is no JSON, and a missing key. Then the
  diagnostic is printed, the conversations are empty and the counter is kept.
\<close>

lemma load_data_falls_back:
  "disk e (storage_file b) = Some NotJSON \<Longrightarrow>
     load_data now b e = Inr (b\<lparr>conversations := []\<rparr>, e\<lparr>warnings := warnings e @ [JSONDecodeError]\<rparr>)"
  "disk e (storage_file b) = Some (JSON d) \<Longrightarrow> load_body now d b = Inl (KeyError k) \<Longrightarrow>
     load_data now b e = Inr (b\<lparr>conversations := []\<rparr>, e\<lparr>warnings := warnings e @ [KeyError k]\<rparr>)"
  by (simp_all add: load_data_def handler_def)

lemma load_body_no_conversations_key:
  "map_of kvs ''conversations'' = None \<Longrightarrow>
   load_body now (PyDict kvs) b =
     Inr (b\<lparr>conversations := [],
            next_conversation_id :=
              (case map_of kvs ''next_conversation_id'' of None \<Rightarrow> PyInt 1 | Some v \<Rightarrow> v)\<rparr>)"
  by (simp add: load_body_def)

lemma load_body_no_counter_key:
  "map_of kvs ''next_conversation_id'' = None \<Longrightarrow> load_body now (PyDict kvs) b = Inr b' \<Longrightarrow>
   next_conversation_id b' = PyInt 1"
  by (auto simp: load_body_def split: sum.splits)

text \<open>
  Claim C8. Without a storage file the constructor gives the board with no
  conversations and the counter 1, and touches nothing. With a file that parses to an
  object without the key \<open>conversations\<close> it gives a board with no conversations.
  With a file that parses to an object without the key \<open>next_conversation_id\<close>, every
  board it gives has the counter 1.
\<close>

theorem load_defaults:
  "(disk e f = None \<longrightarrow>
      ChatBoard_init f now e =
        Inr (\<lparr>storage_file = f, conversations = [], current_user = None,
              next_conversation_id = PyInt 1\<rparr>, e)) \<and>
   (disk e f = Some (JSON (PyDict kvs)) \<and> map_of kvs ''conversations'' = None \<longrightarrow>
      (\<exists>b. ChatBoard_init f now e = Inr (b, e) \<and> conversations b = [])) \<and>
   (disk e f = Some (JSON (PyDict kvs)) \<and> map_of kvs ''next_conversation_id'' = None \<longrightarrow>
      (\<forall>b e'. ChatBoard_init f now e = Inr (b, e') \<longrightarrow> next_conversation_id b = PyInt 1))"
proof (intro conjI impI allI)
  assume "disk e f = None"
  then show "ChatBoard_init f now e =
        Inr (\<lparr>storage_file = f, conversations = [], current_user = None,
              next_conversation_id = PyInt 1\<rparr>, e)"
    by (simp add: ChatBoard_init_def load_data_def)
next
  assume "disk e f = Some (JSON (PyDict kvs)) \<and> map_of kvs ''conversations'' = None"
  then show "\<exists>b. ChatBoard_init f now e = Inr (b, e) \<and> conversations b = []"
    by (simp add: ChatBoard_init_def load_data_def load_body_no_conversations_key)
next
  fix b e'
  assume a: "disk e f = Some (JSON (PyDict kvs)) \<and> map_of kvs ''next_conversation_id'' = None"
    and i: "ChatBoard_init f now e = Inr (b, e')"
  let ?b0 = "\<lparr>storage_file = f, conversations = [], current_user = None,
              next_conversation_id = PyInt 1\<rparr>"
  show "next_conversation_id b = PyInt 1"
  proof (cases "load_body now (PyDict kvs) ?b0")
    case (Inl x)
    with a i show ?thesis
      by (auto simp: ChatBoard_init_def load_data_def handler_def split: if_splits)
  next
    case (Inr b1)
    with a i have "b = b1" by (simp add: ChatBoard_init_def load_data_def)
    with a Inr show ?thesis using load_body_no_counter_key by blast
  qed
qed

theorem load_defaults_witness:
  "disk no_files ''chat_board_data.json'' = None \<and>
   ChatBoard_init ''chat_board_data.json'' noon no_files = Inr (new_board, no_files) \<and>
   map_of [(''next_conversation_id'', PyInt 4)] ''conversations'' = None \<and>
   ChatBoard_init ''chat_board_data.json'' noon (file_env (PyDict [(''next_conversation_id'', PyInt 4)])) =
     Inr (new_board\<lparr>next_conversation_id := PyInt 4\<rparr>,
          file_env (PyDict [(''next_conversation_id'', PyInt 4)])) \<and>
   map_of [(''conversations'', PyList [Conversation_to_dict lunch])] ''next_conversation_id'' = None \<and>
   ChatBoard_init ''chat_board_data.json'' noon
       (file_env (PyDict [(''conversations'', PyList [Conversation_to_dict lunch])])) =
     Inr (new_board\<lparr>conversations := [lunch]\<rparr>,
          file_env (PyDict [(''conversations'', PyList [Conversation_to_dict lunch])]))"
  using load_defaults [where e = no_files and f = "''chat_board_data.json''" and now = noon
      and kvs = "[]"]
    load_defaults [where e = "file_env (PyDict [(''next_conversation_id'', PyInt 4)])"
      and f = "''chat_board_data.json''" and now = noon
      and kvs = "[(''next_conversation_id'', PyInt 4)]"]
    load_defaults [where
      e = "file_env (PyDict [(''conversations'', PyList [Conversation_to_dict lunch])])"
      and f = "''chat_board_data.json''" and now = noon
      and kvs = "[(''conversations'', PyList [Conversation_to_dict lunch])]"]
  by (simp add: ChatBoard_init_def load_data_def load_body_def file_env_def no_files_def
      new_board_def Conversation_from_dict_def Conversation_to_dict_def Conversation_init_def
      lunch_def)

lemma load_data_current_user:
  "load_data now b e = Inr (b', e') \<Longrightarrow> current_user b' = current_user b"
  by (auto simp: load_data_def load_body_def handler_def
      split: option.splits file_content.splits sum.splits if_splits)

text \<open>
  Claim C10. The file that \<open>save_data\<close> writes holds exactly the two fields
  \<open>conversations\<close> and \<open>next_conversation_id\<close>, and is the same whatever
  \<open>current_user\<close> is; every board that the constructor returns has
  \<open>current_user\<close> unset, whatever the files hold.
\<close>

theorem current_user_never_persisted:
  "disk (save_data b e) (storage_file b) =
     Some (JSON (PyDict
       [(''conversations'', PyList (map Conversation_to_dict (conversations b))),
        (''next_conversation_id'', next_conversation_id b)])) \<and>
   save_data (b\<lparr>current_user := u\<rparr>) e = save_data b e \<and>
   (\<forall>b' e'. ChatBoard_init f now e = Inr (b', e') \<longrightarrow> current_user b' = None)"
proof (intro conjI allI impI)
  show "disk (save_data b e) (storage_file b) =
     Some (JSON (PyDict
       [(''conversations'', PyList (map Conversation_to_dict (conversations b))),
        (''next_conversation_id'', next_conversation_id b)]))"
    by (simp add: save_data_def state_to_dict_def)
  show "save_data (b\<lparr>current_user := u\<rparr>) e = save_data b e"
    by (simp add: save_data_def state_to_dict_def)
  fix b' e'
  assume "ChatBoard_init f now e = Inr (b', e')"
  then show "current_user b' = None"
    using load_data_current_user [of now _ e b' e'] by (simp add: ChatBoard_init_def)
qed

theorem current_user_never_persisted_witness:
  "current_user alice_board = Some ''alice'' \<and>
   ChatBoard_init ''chat_board_data.json'' noon (save_data alice_board no_files) =
     Inr (alice_board\<lparr>current_user := None\<rparr>, save_data alice_board no_files) \<and>
   current_user (alice_board\<lparr>current_user := None\<rparr>) = None"
  using ChatBoard_init_after_save [OF reachable_truthy [OF alice_board_reachable], of noon no_files]
    current_user_never_persisted [where f = "''chat_board_data.json''" and now = noon
      and e = "save_data alice_board no_files"]
  by (simp add: alice_board_def lunch_board_def new_board_def)

end
